theory Spec2Isabelle
  imports Complex_Main
begin

section \<open>Python built-ins used by the command handlers\<close>

text \<open>
  \<open>str(n)\<close> of a non-negative integer, as the f-strings of the handlers render counts and
  shard ids: decimal digits, most significant first, no leading zero.
\<close>

definition digit_char :: "nat \<Rightarrow> char" where
  "digit_char d = ''0123456789'' ! d"

fun str_nat :: "nat \<Rightarrow> string" where
  "str_nat n = (if n < 10 then [digit_char n] else str_nat (n div 10) @ [digit_char (n mod 10)])"

declare str_nat.simps [simp del]

definition str_int :: "int \<Rightarrow> string" where
  "str_int i = (if i < 0 then CHR ''-'' # str_nat (nat (- i)) else str_nat (nat i))"

text \<open>
  \<open>list.pop()\<close>: the last element and the list without it; the source raises IndexError
  on an empty list.
\<close>

datatype py_error = IndexError | AttributeError | BadArgument string

definition pop :: "'a list \<Rightarrow> py_error + ('a \<times> 'a list)" where
  "pop xs = (if xs = [] then Inl IndexError else Inr (last xs, butlast xs))"


section \<open>The task registry (features/root_command.py, \<open>jsk_cancel\<close>)\<close>

text \<open>
  A \<open>CommandTask\<close> has an index, the invoking context and the handle of the running unit
  of work. Of the context only the two values the acknowledgement prints are kept: the
  command's qualified name and the already formatted creation time of the message.
  The handle is an identifier; \<open>task.task.cancel()\<close> is recorded by appending that
  identifier to the log \<open>cancelled\<close>, so the log tells which handles were signalled, how often
  and in which order.
\<close>

record context_info =
  qualified_name :: string
  created_at :: string

record command_task =
  index :: int
  ctx :: context_info
  task :: nat

record feature =
  tasks :: "command_task list"
  cancelled :: "nat list"

text \<open>The argument \<open>index: typing.Union[int, str]\<close>.\<close>

datatype index_arg = IntArg int | StrArg string

text \<open>\<open>task.task.cancel()\<close>\<close>

definition cancel :: "feature \<Rightarrow> command_task \<Rightarrow> feature" where
  "cancel self t = self\<lparr>cancelled := cancelled self @ [task t]\<rparr>"

text \<open>\<open>discord.utils.get(self.tasks, index=index)\<close>: the first element with that attribute.\<close>

definition utils_get :: "command_task list \<Rightarrow> int \<Rightarrow> command_task option" where
  "utils_get ts i = List.find (\<lambda>t. index t = i) ts"

definition cancelled_task_message :: "command_task \<Rightarrow> string" where
  "cancelled_task_message t =
     ''Cancelled task '' @ str_int (index t) @ '': `'' @ qualified_name (ctx t) @ ''`,''
       @ '' invoked at '' @ created_at (ctx t) @ '' UTC''"

text \<open>
  The handler returns the feature as it is afterwards, and the text it sends or the
  exception it raises. The branches are in the order of the source. \<open>remove1\<close> is
  \<open>self.tasks.remove(task)\<close>: it removes the first element equal to \<open>task\<close>.
\<close>

definition jsk_cancel :: "feature \<Rightarrow> index_arg \<Rightarrow> feature \<times> (py_error + string)" where
  \<open>jsk_cancel self idx =
     (if tasks self = [] then (self, Inr ''No tasks to cancel.'')
      else if idx = StrArg ''~'' then
        (let task_count = length (tasks self);
             self1 = foldl cancel self (tasks self);
             self2 = self1\<lparr>tasks := []\<rparr>
         in (self2, Inr (''Cancelled '' @ str_nat task_count @ '' tasks.'')))
      else
        (case idx of
           StrArg _ \<Rightarrow> (self, Inl (BadArgument ''Literal for "index" not recognized.''))
         | IntArg i \<Rightarrow>
             (if i = - 1 then
                (case pop (tasks self) of
                   Inl e \<Rightarrow> (self, Inl e)
                 | Inr (t, rest) \<Rightarrow>
                     (cancel (self\<lparr>tasks := rest\<rparr>) t, Inr (cancelled_task_message t)))
              else
                (case utils_get (tasks self) i of
                   Some t \<Rightarrow>
                     (cancel (self\<lparr>tasks := remove1 t (tasks self)\<rparr>) t,
                      Inr (cancelled_task_message t))
                 | None \<Rightarrow> (self, Inr ''Unknown task.'')))))\<close>


section \<open>Hiding and showing the command (\<open>jsk_hide\<close>, \<open>jsk_show\<close>)\<close>

text \<open>
  The state is the flag \<open>self.jsk.hidden\<close>; each handler returns the flag afterwards and the
  text it sends.
\<close>

definition jsk_hide :: "bool \<Rightarrow> bool \<times> string" where
  "jsk_hide hidden =
     (if hidden then (hidden, ''Jishaku is already hidden.'')
      else (True, ''Jishaku is now hidden.''))"

definition jsk_show :: "bool \<Rightarrow> bool \<times> string" where
  "jsk_show hidden =
     (if \<not> hidden then (hidden, ''Jishaku is already visible.'')
      else (False, ''Jishaku is now visible.''))"


section \<open>Voice commands (features/voice.py)\<close>

subsection \<open>Python floats\<close>

text \<open>
  The volume percentage is a Python \<open>float\<close>. A float is modelled as a real number or one
  of the three special values; the rounding of a finite quotient or product is left out
  (a finite result is the exact one). Comparison is the IEEE one: every comparison with
  NaN is false. \<open>min(a, b)\<close> of the built-ins keeps \<open>a\<close> unless \<open>b < a\<close>, and
  \<open>max(a, b)\<close> keeps \<open>a\<close> unless \<open>b > a\<close>.
\<close>

datatype pyfloat = Finite real | PosInf | NegInf | NaN

fun float_lt :: "pyfloat \<Rightarrow> pyfloat \<Rightarrow> bool" where
  "float_lt (Finite a) (Finite b) = (a < b)"
| "float_lt NaN _ = False"
| "float_lt _ NaN = False"
| "float_lt PosInf _ = False"
| "float_lt _ PosInf = True"
| "float_lt _ NegInf = False"
| "float_lt NegInf _ = True"

definition py_min :: "pyfloat \<Rightarrow> pyfloat \<Rightarrow> pyfloat" where
  "py_min a b = (if float_lt b a then b else a)"

definition py_max :: "pyfloat \<Rightarrow> pyfloat \<Rightarrow> pyfloat" where
  "py_max a b = (if float_lt a b then b else a)"

text \<open>\<open>x / 100\<close> and \<open>x * 100\<close>\<close>

fun div_100 :: "pyfloat \<Rightarrow> pyfloat" where
  "div_100 (Finite r) = Finite (r / 100)"
| "div_100 x = x"

fun mul_100 :: "pyfloat \<Rightarrow> pyfloat" where
  "mul_100 (Finite r) = Finite (r * 100)"
| "mul_100 x = x"

subsection \<open>The voice client\<close>

text \<open>
  An audio source is an \<open>FFmpegPCMAudio\<close> made from a URI, a \<open>PCMVolumeTransformer\<close>
  around another source with its \<open>volume\<close> attribute, or a source of some other class.
\<close>

datatype audio_source =
    FFmpegPCMAudio string
  | PCMVolumeTransformer audio_source pyfloat
  | OtherSource nat

text \<open>
  What the handlers read of \<open>ctx.guild.voice_client\<close>: the answers of \<open>is_connected()\<close>,
  \<open>is_playing()\<close> and \<open>is_paused()\<close>, the attribute \<open>source\<close> and \<open>channel.name\<close>.
  The guild's \<open>voice_client\<close> is \<open>None\<close> when there is no client.
\<close>

record voice_client =
  is_connected :: bool
  is_playing :: bool
  is_paused :: bool
  source :: "audio_source option"
  channel_name :: string

text \<open>
  Every call a handler makes on the voice client, and every text it sends, is recorded in
  order. What \<open>stop\<close>, \<open>pause\<close>, \<open>resume\<close> and \<open>play\<close> do to the client is the
  framework's business and is not modelled: a handler's trace says that the call was made.
  The one change a handler makes itself is the assignment \<open>source.volume = volume\<close>.
\<close>

datatype call =
    IsConnected | IsPlaying | IsPaused
  | Stop | Pause | Resume
  | Play audio_source
  | Send string

definition not_connected_message :: string where
  "not_connected_message = ''Not connected to a voice channel in this guild.''"

definition not_playing_message :: string where
  "not_playing_message = ''The voice client in this guild is not playing anything.''"

definition volume_unsupported_message :: string where
  "volume_unsupported_message =
     ''This source doesn't support adjusting volume or the interface to do so is not exposed.''"

text \<open>
  A check returns the message it sent (a truthy value) or \<open>None\<close>, with its trace.
  \<open>not voice or not voice.is_connected()\<close> does not call \<open>is_connected\<close> when there is no
  client.
\<close>

definition connected_check :: "voice_client option \<Rightarrow> call list \<times> string option" where
  "connected_check voice =
     (case voice of
        None \<Rightarrow> ([Send not_connected_message], Some not_connected_message)
      | Some v \<Rightarrow>
          (if \<not> is_connected v
           then ([IsConnected, Send not_connected_message], Some not_connected_message)
           else ([IsConnected], None)))"

definition playing_check :: "voice_client option \<Rightarrow> py_error + (call list \<times> string option)" where
  "playing_check voice =
     (case connected_check voice of
        (tr, Some check) \<Rightarrow> Inr (tr, Some check)
      | (tr, None) \<Rightarrow>
          (case voice of
             None \<Rightarrow> Inl AttributeError
           | Some v \<Rightarrow>
               (if \<not> is_playing v
                then Inr (tr @ [IsPlaying, Send not_playing_message], Some not_playing_message)
                else Inr (tr @ [IsPlaying], None))))"

text \<open>
  A handler returns the guild's voice client afterwards and its trace, or the exception it
  raises.
\<close>

definition jsk_vc_stop :: "voice_client option \<Rightarrow> py_error + (voice_client option \<times> call list)" where
  "jsk_vc_stop voice =
     (case playing_check voice of
        Inl e \<Rightarrow> Inl e
      | Inr (tr, Some _) \<Rightarrow> Inr (voice, tr)
      | Inr (tr, None) \<Rightarrow>
          (case voice of
             None \<Rightarrow> Inl AttributeError
           | Some v \<Rightarrow>
               Inr (voice, tr @ [Stop, Send (''Stopped playing audio in '' @ channel_name v @ ''.'')])))"

definition jsk_vc_pause :: "voice_client option \<Rightarrow> py_error + (voice_client option \<times> call list)" where
  "jsk_vc_pause voice =
     (case playing_check voice of
        Inl e \<Rightarrow> Inl e
      | Inr (tr, Some _) \<Rightarrow> Inr (voice, tr)
      | Inr (tr, None) \<Rightarrow>
          (case voice of
             None \<Rightarrow> Inl AttributeError
           | Some v \<Rightarrow>
               (if is_paused v
                then Inr (voice, tr @ [IsPaused, Send ''Audio is already paused.''])
                else Inr (voice, tr @ [IsPaused, Pause,
                                       Send (''Paused audio in '' @ channel_name v @ ''.'')]))))"

definition jsk_vc_resume :: "voice_client option \<Rightarrow> py_error + (voice_client option \<times> call list)" where
  "jsk_vc_resume voice =
     (case playing_check voice of
        Inl e \<Rightarrow> Inl e
      | Inr (tr, Some _) \<Rightarrow> Inr (voice, tr)
      | Inr (tr, None) \<Rightarrow>
          (case voice of
             None \<Rightarrow> Inl AttributeError
           | Some v \<Rightarrow>
               (if \<not> is_paused v
                then Inr (voice, tr @ [IsPaused, Send ''Audio is not paused.''])
                else Inr (voice, tr @ [IsPaused, Resume,
                                       Send (''Resumed audio in '' @ channel_name v @ ''.'')]))))"

text \<open>
  \<open>jsk_vc_volume\<close>. The text of \<open>f"{volume * 100:.2f}"\<close> is the parameter \<open>format_2f\<close>
  applied to the product.
\<close>

definition clamp_volume :: "pyfloat \<Rightarrow> pyfloat" where
  "clamp_volume percentage = py_max (Finite 0) (py_min (Finite 1) (div_100 percentage))"

definition jsk_vc_volume ::
  "(pyfloat \<Rightarrow> string) \<Rightarrow> voice_client option \<Rightarrow> pyfloat
     \<Rightarrow> py_error + (voice_client option \<times> call list)" where
  "jsk_vc_volume format_2f voice percentage =
     (case playing_check voice of
        Inl e \<Rightarrow> Inl e
      | Inr (tr, Some _) \<Rightarrow> Inr (voice, tr)
      | Inr (tr, None) \<Rightarrow>
          (let volume = clamp_volume percentage in
           case voice of
             None \<Rightarrow> Inl AttributeError
           | Some v \<Rightarrow>
               (case source v of
                  Some (PCMVolumeTransformer original _) \<Rightarrow>
                    Inr (Some (v\<lparr>source := Some (PCMVolumeTransformer original volume)\<rparr>),
                         tr @ [Send (''Volume set to '' @ format_2f (mul_100 volume) @ ''%'')])
                | _ \<Rightarrow> Inr (voice, tr @ [Send volume_unsupported_message]))))"

text \<open>
  \<open>jsk_vc_play\<close>. \<open>uri.lstrip("<").rstrip(">")\<close> drops every leading \<open><\<close> and every
  trailing \<open>>\<close>. A new \<open>PCMVolumeTransformer\<close> has the volume 1.0.
\<close>

definition lstrip :: "char \<Rightarrow> string \<Rightarrow> string" where
  "lstrip c s = dropWhile (\<lambda>x. x = c) s"

definition rstrip :: "char \<Rightarrow> string \<Rightarrow> string" where
  "rstrip c s = rev (dropWhile (\<lambda>x. x = c) (rev s))"

definition jsk_vc_play :: "voice_client option \<Rightarrow> string \<Rightarrow> py_error + (voice_client option \<times> call list)" where
  "jsk_vc_play voice uri =
     (case connected_check voice of
        (tr, Some _) \<Rightarrow> Inr (voice, tr)
      | (tr, None) \<Rightarrow>
          (case voice of
             None \<Rightarrow> Inl AttributeError
           | Some v \<Rightarrow>
               (let tr1 = tr @ (if is_playing v then [IsPlaying, Stop] else [IsPlaying]);
                    uri1 = rstrip (CHR ''>'') (lstrip (CHR ''<'') uri)
                in Inr (voice,
                        tr1 @ [Play (PCMVolumeTransformer (FFmpegPCMAudio uri1) (Finite 1)),
                               Send (''Playing in '' @ channel_name v @ ''.'')]))))"


section \<open>The status report (features/root_command.py, \<open>jsk\<close>)\<close>

subsection \<open>String helpers\<close>

text \<open>\<open>sep.join(xs)\<close>\<close>

fun join :: "string \<Rightarrow> string list \<Rightarrow> string" where
  "join sep [] = []"
| "join sep [x] = x"
| "join sep (x # y # ys) = x @ sep @ join sep (y # ys)"

text \<open>\<open>str(x)\<close> of a value that is a non-negative integer or \<open>None\<close>.\<close>

definition str_opt :: "nat option \<Rightarrow> string" where
  "str_opt x = (case x of None \<Rightarrow> ''None'' | Some n \<Rightarrow> str_nat n)"

text \<open>The truth value of such a value: \<open>None\<close> and \<open>0\<close> are false.\<close>

definition truthy :: "nat option \<Rightarrow> bool" where
  "truthy x = (case x of None \<Rightarrow> False | Some n \<Rightarrow> n \<noteq> 0)"

text \<open>\<open>s.replace("\n", "")\<close>\<close>

definition remove_newlines :: "string \<Rightarrow> string" where
  "remove_newlines s = filter (\<lambda>c. c \<noteq> CHR 0x0A) s"

subsection \<open>The process information of psutil\<close>

text \<open>
  Each query of psutil either answers or raises \<open>AccessDenied\<close>: \<open>psutil.Process()\<close>,
  entering \<open>proc.oneshot()\<close>, \<open>memory_full_info()\<close>, \<open>name()\<close> and \<open>num_threads()\<close>. The
  attribute \<open>pid\<close> is read without a call. The module itself is \<open>None\<close> when it could not
  be imported.
\<close>

datatype psutil_error = AccessDenied

record memory_info =
  rss :: nat
  vms :: nat
  uss :: nat

record process =
  oneshot :: "psutil_error + unit"
  memory_full_info :: "psutil_error + memory_info"
  name :: "psutil_error + string"
  pid :: nat
  num_threads :: "psutil_error + nat"

subsection \<open>What the report reads\<close>

text \<open>
  The version strings, the two humanized times, \<open>humanize.naturalsize\<close>, psutil, and of the
  bot: the guilds and users (only counted), whether it is a \<open>discord.AutoShardedClient\<close>,
  the keys of \<open>shards\<close> in the dictionary's order, \<open>shard_count\<close> and \<open>shard_id\<close> (each
  possibly \<open>None\<close>), \<open>max_messages\<close>, the intents, and the text of
  \<open>round(latency * 1000, 2)\<close>, a float that is only printed.
\<close>

record status_env =
  jishaku_version :: string
  discord_version :: string
  sys_version :: string
  sys_platform :: string
  load_time :: string
  start_time :: string
  naturalsize :: "nat \<Rightarrow> string"
  psutil :: "(psutil_error + process) option"
  guilds :: "nat list"
  users :: "nat list"
  auto_sharded :: bool
  shards :: "nat list"
  shard_count :: "nat option"
  shard_id :: "nat option"
  max_messages :: "nat option"
  version_info_ge_1_5 :: bool
  presences :: bool
  members :: bool
  guild_subscriptions :: bool
  latency_ms :: string

subsection \<open>The lines of the report\<close>

definition header_lines :: "status_env \<Rightarrow> string list" where
  "header_lines e =
     [remove_newlines
        (''Jishaku v'' @ jishaku_version e @ '', discord.py `'' @ discord_version e @ ''`, ''
         @ ''`Python '' @ sys_version e @ ''` on `'' @ sys_platform e @ ''`''),
      ''Module was loaded '' @ load_time e @ '', '' @ ''cog was loaded '' @ start_time e @ ''.'',
      []]"

definition access_denied_message :: string where
  "access_denied_message =
     ''psutil is installed, but this process does not have high enough access rights ''
     @ ''to query process information.''"

definition memory_line :: "(nat \<Rightarrow> string) \<Rightarrow> memory_info \<Rightarrow> string" where
  "memory_line nsize mem =
     ''Using '' @ nsize (rss mem) @ '' physical memory and ''
     @ nsize (vms mem) @ '' virtual memory, ''
     @ nsize (uss mem) @ '' of which unique to this process.''"

definition process_line :: "nat \<Rightarrow> string \<Rightarrow> nat \<Rightarrow> string" where
  "process_line p n thread_count =
     ''Running on PID '' @ str_nat p @ '' (`'' @ n @ ''`) with '' @ str_nat thread_count
     @ '' thread(s).''"

text \<open>
  The block under \<open>if psutil:\<close>. The two inner \<open>try\<close> blocks pass on \<open>AccessDenied\<close>;
  the outer one catches what \<open>psutil.Process()\<close> and the entry of \<open>oneshot()\<close> raise.
  The empty string is the blank line.
\<close>

definition process_lines :: "status_env \<Rightarrow> string list" where
  "process_lines e =
     (case psutil e of
        None \<Rightarrow> []
      | Some (Inl AccessDenied) \<Rightarrow> [access_denied_message, []]
      | Some (Inr proc) \<Rightarrow>
          (case oneshot proc of
             Inl AccessDenied \<Rightarrow> [access_denied_message, []]
           | Inr _ \<Rightarrow>
               (case memory_full_info proc of
                  Inl AccessDenied \<Rightarrow> []
                | Inr mem \<Rightarrow> [memory_line (naturalsize e) mem])
               @ (case name proc of
                    Inl AccessDenied \<Rightarrow> []
                  | Inr n \<Rightarrow>
                      (case num_threads proc of
                         Inl AccessDenied \<Rightarrow> []
                       | Inr thread_count \<Rightarrow> [process_line (pid proc) n thread_count]))
               @ [[]]))"

definition cache_summary :: "status_env \<Rightarrow> string" where
  "cache_summary e =
     str_nat (length (guilds e)) @ '' guild(s) and '' @ str_nat (length (users e)) @ '' user(s)''"

definition shard_line :: "status_env \<Rightarrow> string" where
  "shard_line e =
     (if auto_sharded e then
        (if length (shards e) > 20 then
           ''This bot is automatically sharded ('' @ str_nat (length (shards e))
           @ '' shards of '' @ str_opt (shard_count e) @ '')''
           @ '' and can see '' @ cache_summary e @ ''.''
         else
           (let shard_ids = join '', '' (map str_nat (shards e)) in
            ''This bot is automatically sharded (Shards '' @ shard_ids
            @ '' of '' @ str_opt (shard_count e) @ '')''
            @ '' and can see '' @ cache_summary e @ ''.''))
      else if truthy (shard_count e) then
        ''This bot is manually sharded (Shard '' @ str_opt (shard_id e)
        @ '' of '' @ str_opt (shard_count e) @ '')''
        @ '' and can see '' @ cache_summary e @ ''.''
      else ''This bot is not sharded and can see '' @ cache_summary e @ ''.'')"

definition cache_line :: "status_env \<Rightarrow> string" where
  "cache_line e =
     (let message_cache =
            (if truthy (max_messages e)
             then ''Message cache capped at '' @ str_opt (max_messages e)
             else ''Message cache is disabled'')
      in if version_info_ge_1_5 e then
           (let presence_intent =
                  ''presence intent is '' @ (if presences e then ''enabled'' else ''disabled'');
                members_intent =
                  ''members intent is '' @ (if members e then ''enabled'' else ''disabled'')
            in message_cache @ '', '' @ presence_intent @ '' and '' @ members_intent @ ''.'')
         else
           (let subscriptions =
                  ''guild subscriptions are ''
                  @ (if guild_subscriptions e then ''enabled'' else ''disabled'')
            in message_cache @ '' and '' @ subscriptions @ ''.''))"

definition latency_line :: "status_env \<Rightarrow> string" where
  "latency_line e = ''Average websocket latency: '' @ latency_ms e @ ''ms''"

text \<open>The list \<open>summary\<close> as it stands before it is joined, and the text \<open>jsk\<close> sends.\<close>

definition summary :: "status_env \<Rightarrow> string list" where
  "summary e = header_lines e @ process_lines e @ [shard_line e, cache_line e, latency_line e]"

definition jsk :: "status_env \<Rightarrow> string" where
  "jsk e = join [CHR 0x0A] (summary e)"


subsection \<open>A sample environment\<close>

text \<open>
  A bot with two guilds and three users, automatically sharded, with the given shard ids
  and the given answers of psutil; the properties below are evaluated on it.
\<close>

abbreviation sample_env :: "nat list \<Rightarrow> (psutil_error + process) option \<Rightarrow> status_env" where
  "sample_env ids ps \<equiv>
     \<lparr>jishaku_version = ''1.20.0'', discord_version = ''1.7.3'', sys_version = ''3.9.0'',
      sys_platform = ''linux'', load_time = ''2 hours ago'', start_time = ''an hour ago'',
      naturalsize = (\<lambda>n. str_nat n @ '' Bytes''), psutil = ps,
      guilds = [1, 2], users = [1, 2, 3], auto_sharded = True, shards = ids,
      shard_count = Some 24, shard_id = None, max_messages = Some 1000,
      version_info_ge_1_5 = True, presences = False, members = True,
      guild_subscriptions = True, latency_ms = ''41.5''\<rparr>"


section \<open>Properties of the task registry\<close>

lemma foldl_cancel:
  "foldl cancel self ts = self\<lparr>cancelled := cancelled self @ map task ts\<rparr>"
  by (induction ts arbitrary: self) (simp_all add: cancel_def)

lemma utils_get_None: "\<forall>t \<in> set ts. index t \<noteq> i \<Longrightarrow> utils_get ts i = None"
  by (simp add: utils_get_def find_None_iff)

text \<open>
  C1, as stated, at the second invocation. After a cancel-all the registry is empty, and
  the first test of the handler answers an empty registry with its own text: the second
  \<open>jsk cancel ~\<close> sends \<open>No tasks to cancel.\<close> and not a count of zero.
\<close>

theorem cancel_all_reports_zero_counterexample:
  "jsk_cancel \<lparr>tasks = [], cancelled = [7, 8]\<rparr> (StrArg ''~'')
     = (\<lparr>tasks = [], cancelled = [7, 8]\<rparr>, Inr ''No tasks to cancel.'')
   \<and> jsk_cancel \<lparr>tasks = [], cancelled = [7, 8]\<rparr> (StrArg ''~'')
     \<noteq> (\<lparr>tasks = [], cancelled = [7, 8]\<rparr>, Inr (''Cancelled '' @ str_nat 0 @ '' tasks.''))"
  by (simp add: jsk_cancel_def)

text \<open>
  C1, amended. On a registry of \<open>N \<ge> 1\<close> records, \<open>jsk cancel ~\<close> signals the handle of
  every record (each once, in the order of the registry), leaves the registry empty and
  reports the count \<open>N\<close> it had before. Invoked again at once, on the now empty registry,
  it signals nothing, changes nothing and sends \<open>No tasks to cancel.\<close>
\<close>

theorem cancel_all_signals_every_task:
  assumes "tasks self \<noteq> []"
  shows "jsk_cancel self (StrArg ''~'') =
           (self\<lparr>tasks := [], cancelled := cancelled self @ map task (tasks self)\<rparr>,
            Inr (''Cancelled '' @ str_nat (length (tasks self)) @ '' tasks.''))
       \<and> jsk_cancel (self\<lparr>tasks := [], cancelled := cancelled self @ map task (tasks self)\<rparr>)
            (StrArg ''~'') =
           (self\<lparr>tasks := [], cancelled := cancelled self @ map task (tasks self)\<rparr>,
            Inr ''No tasks to cancel.'')"
  using assms by (simp add: jsk_cancel_def foldl_cancel)

theorem cancel_all_signals_every_task_witness:
  "tasks \<lparr>tasks = [\<lparr>index = 1, ctx = \<lparr>qualified_name = ''jsk py'', created_at = ''2021-01-01 00:00:00''\<rparr>, task = 7\<rparr>,
                     \<lparr>index = 2, ctx = \<lparr>qualified_name = ''jsk sh'', created_at = ''2021-01-01 00:00:05''\<rparr>, task = 8\<rparr>],
           cancelled = []\<rparr> \<noteq> []
   \<and> jsk_cancel \<lparr>tasks = [\<lparr>index = 1, ctx = \<lparr>qualified_name = ''jsk py'', created_at = ''2021-01-01 00:00:00''\<rparr>, task = 7\<rparr>,
                     \<lparr>index = 2, ctx = \<lparr>qualified_name = ''jsk sh'', created_at = ''2021-01-01 00:00:05''\<rparr>, task = 8\<rparr>],
           cancelled = []\<rparr> (StrArg ''~'')
     = (\<lparr>tasks = [], cancelled = [7, 8]\<rparr>, Inr ''Cancelled 2 tasks.'')
   \<and> jsk_cancel \<lparr>tasks = [], cancelled = [7, 8]\<rparr> (StrArg ''~'')
     = (\<lparr>tasks = [], cancelled = [7, 8]\<rparr>, Inr ''No tasks to cancel.'')"
  using cancel_all_signals_every_task
    [of "\<lparr>tasks = [\<lparr>index = 1, ctx = \<lparr>qualified_name = ''jsk py'', created_at = ''2021-01-01 00:00:00''\<rparr>, task = 7\<rparr>,
                     \<lparr>index = 2, ctx = \<lparr>qualified_name = ''jsk sh'', created_at = ''2021-01-01 00:00:05''\<rparr>, task = 8\<rparr>],
           cancelled = []\<rparr>"]
  by (simp add: str_nat.simps digit_char_def)

text \<open>
  C2, as stated, on the empty registry. No record has the index 0 there, yet the outcome is
  the text for an empty registry, \<open>No tasks to cancel.\<close>, which the handler keeps apart
  from the not-found text \<open>Unknown task.\<close>
\<close>

theorem cancel_unknown_index_counterexample:
  "(0::int) \<noteq> - 1
   \<and> tasks \<lparr>tasks = [], cancelled = []\<rparr> = []
   \<and> jsk_cancel \<lparr>tasks = [], cancelled = []\<rparr> (IntArg 0)
       = (\<lparr>tasks = [], cancelled = []\<rparr>, Inr ''No tasks to cancel.'')
   \<and> jsk_cancel \<lparr>tasks = [], cancelled = []\<rparr> (IntArg 0)
       \<noteq> (\<lparr>tasks = [], cancelled = []\<rparr>, Inr ''Unknown task.'')"
  by (simp add: jsk_cancel_def)

text \<open>
  C2, amended. For every registry and every integer index \<open>i\<close> other than \<open>-1\<close> that no
  record of the registry has, the handler leaves the feature as it was (the same records in
  the same order, no handle signalled); on a non-empty registry it sends the not-found
  text \<open>Unknown task.\<close>, on the empty registry \<open>No tasks to cancel.\<close>
\<close>

theorem cancel_unknown_index_no_mutation:
  assumes "i \<noteq> - 1" and "\<forall>t \<in> set (tasks self). index t \<noteq> i"
  shows "jsk_cancel self (IntArg i) =
           (self, Inr (if tasks self = [] then ''No tasks to cancel.'' else ''Unknown task.''))"
  using assms by (simp add: jsk_cancel_def utils_get_None)

theorem cancel_unknown_index_no_mutation_witness:
  "(5::int) \<noteq> - 1
   \<and> 5 \<notin> set (map index (tasks \<lparr>tasks = [\<lparr>index = 1, ctx = \<lparr>qualified_name = ''jsk py'', created_at = ''2021-01-01 00:00:00''\<rparr>, task = 7\<rparr>], cancelled = []\<rparr>))
   \<and> jsk_cancel \<lparr>tasks = [\<lparr>index = 1, ctx = \<lparr>qualified_name = ''jsk py'', created_at = ''2021-01-01 00:00:00''\<rparr>, task = 7\<rparr>], cancelled = []\<rparr> (IntArg 5)
     = (\<lparr>tasks = [\<lparr>index = 1, ctx = \<lparr>qualified_name = ''jsk py'', created_at = ''2021-01-01 00:00:00''\<rparr>, task = 7\<rparr>], cancelled = []\<rparr>, Inr ''Unknown task.'')
   \<and> jsk_cancel \<lparr>tasks = [], cancelled = []\<rparr> (IntArg 5)
     = (\<lparr>tasks = [], cancelled = []\<rparr>, Inr ''No tasks to cancel.'')"
  using cancel_unknown_index_no_mutation
    [of 5 "\<lparr>tasks = [\<lparr>index = 1, ctx = \<lparr>qualified_name = ''jsk py'', created_at = ''2021-01-01 00:00:00''\<rparr>, task = 7\<rparr>], cancelled = []\<rparr>"]
    cancel_unknown_index_no_mutation [of 5 "\<lparr>tasks = [], cancelled = []\<rparr>"]
  by simp

text \<open>
  C3. On a non-empty registry, cancelling with index \<open>-1\<close> removes exactly the last record
  of the list (the most recently inserted one): the registry afterwards is the old one
  without its last element, so every other record is still there in its original order;
  and the log of signalled handles grows by exactly one entry, the handle of that record.
\<close>

theorem cancel_last_removes_most_recent:
  assumes "tasks self \<noteq> []"
  shows "jsk_cancel self (IntArg (- 1)) =
           (self\<lparr>tasks := butlast (tasks self),
                 cancelled := cancelled self @ [task (last (tasks self))]\<rparr>,
            Inr (cancelled_task_message (last (tasks self))))"
  using assms by (simp add: jsk_cancel_def pop_def cancel_def)

theorem cancel_last_removes_most_recent_witness:
  "tasks \<lparr>tasks = [\<lparr>index = 1, ctx = \<lparr>qualified_name = ''jsk py'', created_at = ''2021-01-01 00:00:00''\<rparr>, task = 7\<rparr>,
                     \<lparr>index = 2, ctx = \<lparr>qualified_name = ''jsk sh'', created_at = ''2021-01-01 00:00:05''\<rparr>, task = 8\<rparr>],
           cancelled = []\<rparr> \<noteq> []
   \<and> jsk_cancel \<lparr>tasks = [\<lparr>index = 1, ctx = \<lparr>qualified_name = ''jsk py'', created_at = ''2021-01-01 00:00:00''\<rparr>, task = 7\<rparr>,
                     \<lparr>index = 2, ctx = \<lparr>qualified_name = ''jsk sh'', created_at = ''2021-01-01 00:00:05''\<rparr>, task = 8\<rparr>],
           cancelled = []\<rparr> (IntArg (- 1))
     = (\<lparr>tasks = [\<lparr>index = 1, ctx = \<lparr>qualified_name = ''jsk py'', created_at = ''2021-01-01 00:00:00''\<rparr>, task = 7\<rparr>],
          cancelled = [8]\<rparr>,
        Inr ''Cancelled task 2: `jsk sh`, invoked at 2021-01-01 00:00:05 UTC'')"
  using cancel_last_removes_most_recent
    [of "\<lparr>tasks = [\<lparr>index = 1, ctx = \<lparr>qualified_name = ''jsk py'', created_at = ''2021-01-01 00:00:00''\<rparr>, task = 7\<rparr>,
                     \<lparr>index = 2, ctx = \<lparr>qualified_name = ''jsk sh'', created_at = ''2021-01-01 00:00:05''\<rparr>, task = 8\<rparr>],
           cancelled = []\<rparr>"]
  by (simp add: cancelled_task_message_def str_int_def str_nat.simps digit_char_def)

text \<open>
  C8, as stated, on the empty registry. The test for an empty registry comes before the
  test of the argument's type, so the non-numeric index \<open>abc\<close> is answered with
  \<open>No tasks to cancel.\<close> there and no \<open>BadArgument\<close> is raised.
\<close>

theorem cancel_non_numeric_counterexample:
  \<open>''abc'' \<noteq> ''~''
   \<and> jsk_cancel \<lparr>tasks = [], cancelled = []\<rparr> (StrArg ''abc'')
       = (\<lparr>tasks = [], cancelled = []\<rparr>, Inr ''No tasks to cancel.'')
   \<and> jsk_cancel \<lparr>tasks = [], cancelled = []\<rparr> (StrArg ''abc'')
       \<noteq> (\<lparr>tasks = [], cancelled = []\<rparr>, Inl (BadArgument ''Literal for "index" not recognized.''))\<close>
  by (simp add: jsk_cancel_def)

text \<open>
  C8, amended. On a non-empty registry the literal \<open>~\<close> is tested before the index is
  looked at as a number and cancels all tasks, and every other string raises
  \<open>BadArgument\<close> with the feature untouched: no lookup, no removal, no handle signalled.
  On the empty registry every string, \<open>~\<close> included, is answered with
  \<open>No tasks to cancel.\<close> and nothing is raised.
\<close>

theorem cancel_non_numeric_rejected:
  \<open>(tasks self \<noteq> [] \<longrightarrow>
      jsk_cancel self (StrArg ''~'') =
        (self\<lparr>tasks := [], cancelled := cancelled self @ map task (tasks self)\<rparr>,
         Inr (''Cancelled '' @ str_nat (length (tasks self)) @ '' tasks.''))
      \<and> (s \<noteq> ''~'' \<longrightarrow>
           jsk_cancel self (StrArg s) =
             (self, Inl (BadArgument ''Literal for "index" not recognized.''))))
   \<and> (tasks self = [] \<longrightarrow> jsk_cancel self (StrArg s) = (self, Inr ''No tasks to cancel.''))\<close>
  by (simp add: jsk_cancel_def foldl_cancel)

theorem cancel_non_numeric_rejected_witness:
  \<open>tasks \<lparr>tasks = [\<lparr>index = 1, ctx = \<lparr>qualified_name = ''jsk py'', created_at = ''2021-01-01 00:00:00''\<rparr>, task = 7\<rparr>], cancelled = []\<rparr> \<noteq> []
   \<and> ''abc'' \<noteq> ''~''
   \<and> jsk_cancel \<lparr>tasks = [\<lparr>index = 1, ctx = \<lparr>qualified_name = ''jsk py'', created_at = ''2021-01-01 00:00:00''\<rparr>, task = 7\<rparr>], cancelled = []\<rparr> (StrArg ''~'')
       = (\<lparr>tasks = [], cancelled = [7]\<rparr>, Inr ''Cancelled 1 tasks.'')
   \<and> jsk_cancel \<lparr>tasks = [\<lparr>index = 1, ctx = \<lparr>qualified_name = ''jsk py'', created_at = ''2021-01-01 00:00:00''\<rparr>, task = 7\<rparr>], cancelled = []\<rparr> (StrArg ''abc'')
       = (\<lparr>tasks = [\<lparr>index = 1, ctx = \<lparr>qualified_name = ''jsk py'', created_at = ''2021-01-01 00:00:00''\<rparr>, task = 7\<rparr>], cancelled = []\<rparr>,
          Inl (BadArgument ''Literal for "index" not recognized.''))
   \<and> tasks \<lparr>tasks = [], cancelled = []\<rparr> = []
   \<and> jsk_cancel \<lparr>tasks = [], cancelled = []\<rparr> (StrArg ''abc'')
       = (\<lparr>tasks = [], cancelled = []\<rparr>, Inr ''No tasks to cancel.'')\<close>
  using cancel_non_numeric_rejected
    [of "\<lparr>tasks = [\<lparr>index = 1, ctx = \<lparr>qualified_name = ''jsk py'', created_at = ''2021-01-01 00:00:00''\<rparr>, task = 7\<rparr>], cancelled = []\<rparr>" "''abc''"]
    cancel_non_numeric_rejected [of "\<lparr>tasks = [], cancelled = []\<rparr>" "''abc''"]
  by (simp add: str_nat.simps digit_char_def)


section \<open>Properties of hide and show\<close>

text \<open>
  C10. Hiding an already hidden command leaves the flag set and sends the already-hidden
  text, not the success text; showing an already visible command leaves the flag clear and
  sends the already-visible text. After any \<open>jsk hide\<close> the flag is set and after any
  \<open>jsk show\<close> it is clear, so a second invocation of either changes nothing.
\<close>

theorem hide_show_idempotent:
  "jsk_hide True = (True, ''Jishaku is already hidden.'')
   \<and> jsk_hide False = (True, ''Jishaku is now hidden.'')
   \<and> jsk_show False = (False, ''Jishaku is already visible.'')
   \<and> jsk_show True = (False, ''Jishaku is now visible.'')
   \<and> fst (jsk_hide hidden) = True
   \<and> fst (jsk_show hidden) = False
   \<and> jsk_hide (fst (jsk_hide hidden)) = (True, ''Jishaku is already hidden.'')
   \<and> jsk_show (fst (jsk_show hidden)) = (False, ''Jishaku is already visible.'')"
  by (simp add: jsk_hide_def jsk_show_def)

theorem hide_show_idempotent_witness:
  "fst (jsk_hide False) = True \<and> fst (jsk_show True) = False
   \<and> jsk_hide (fst (jsk_hide False)) = (True, ''Jishaku is already hidden.'')
   \<and> jsk_show (fst (jsk_show True)) = (False, ''Jishaku is already visible.'')"
  using hide_show_idempotent [of False] hide_show_idempotent [of True] by simp


section \<open>Properties of the voice commands\<close>

lemma clamp_volume_Finite: "clamp_volume (Finite r) = Finite (max 0 (min 1 (r / 100)))"
  by (simp add: clamp_volume_def py_max_def py_min_def max_def min_def)

lemma clamp_volume_special:
  "clamp_volume PosInf = Finite 1" "clamp_volume NegInf = Finite 0" "clamp_volume NaN = Finite 1"
  by (simp_all add: clamp_volume_def py_max_def py_min_def)

lemma playing_check_passes:
  "is_connected v \<Longrightarrow> is_playing v \<Longrightarrow> playing_check (Some v) = Inr ([IsConnected, IsPlaying], None)"
  by (simp add: playing_check_def connected_check_def)

lemma playing_check_None:
  "playing_check None = Inr ([Send not_connected_message], Some not_connected_message)"
  by (simp add: playing_check_def connected_check_def)

lemma playing_check_disconnected:
  "\<not> is_connected v \<Longrightarrow>
     playing_check (Some v) = Inr ([IsConnected, Send not_connected_message], Some not_connected_message)"
  by (simp add: playing_check_def connected_check_def)

lemma playing_check_idle:
  "is_connected v \<Longrightarrow> \<not> is_playing v \<Longrightarrow>
     playing_check (Some v) =
       Inr ([IsConnected, IsPlaying, Send not_playing_message], Some not_playing_message)"
  by (simp add: playing_check_def connected_check_def)

lemma strip_bare:
  assumes "u = [] \<or> (hd u \<noteq> CHR ''<'' \<and> last u \<noteq> CHR ''>'')"
  shows "rstrip (CHR ''>'') (lstrip (CHR ''<'') u) = u"
    and "rstrip (CHR ''>'') (lstrip (CHR ''<'') (CHR ''<'' # u @ ''>'')) = u"
proof -
  have l: "dropWhile (\<lambda>x. x = CHR ''<'') u = u"
    using assms by (cases u) auto
  have r: "dropWhile (\<lambda>x. x = CHR ''>'') (rev u) = rev u"
    using assms by (cases "rev u") (auto simp: hd_rev dropWhile_eq_self_iff)
  show "rstrip (CHR ''>'') (lstrip (CHR ''<'') u) = u"
    by (simp add: lstrip_def rstrip_def l r)
  have "dropWhile (\<lambda>x. x = CHR ''<'') (u @ ''>'') = u @ ''>''"
    using assms by (cases u) auto
  then show "rstrip (CHR ''>'') (lstrip (CHR ''<'') (CHR ''<'' # u @ ''>'')) = u"
    by (simp add: lstrip_def rstrip_def r)
qed

text \<open>
  C4. With a voice client that is connected and playing: when the source is a
  \<open>PCMVolumeTransformer\<close>, \<open>jsk voice volume p\<close> assigns to its volume the quotient
  \<open>p / 100\<close> clamped into \<open>[0, 1]\<close> (for a finite \<open>p\<close>; an infinite \<open>p\<close> gives the
  bound on its side, and NaN gives 1, so the volume is in \<open>[0, 1]\<close> for every float);
  the percentages -50, 0, 50, 100 and 150 give 0, 0, 0.5, 1 and 1. When the source is
  anything else, the client is left as it was and the handler sends its own text about
  the unsupported operation, which is never the text of a set volume.
\<close>

theorem volume_clamped:
  assumes "is_connected v" and "is_playing v"
  shows "(source v = Some (PCMVolumeTransformer original old) \<longrightarrow>
            jsk_vc_volume fmt (Some v) p =
              Inr (Some (v\<lparr>source := Some (PCMVolumeTransformer original (clamp_volume p))\<rparr>),
                   [IsConnected, IsPlaying,
                    Send (''Volume set to '' @ fmt (mul_100 (clamp_volume p)) @ ''%'')]))
       \<and> ((\<forall>original old. source v \<noteq> Some (PCMVolumeTransformer original old)) \<longrightarrow>
            jsk_vc_volume fmt (Some v) p =
              Inr (Some v, [IsConnected, IsPlaying, Send volume_unsupported_message]))
       \<and> volume_unsupported_message \<noteq> ''Volume set to '' @ fmt (mul_100 (clamp_volume p)) @ ''%''
       \<and> clamp_volume (Finite r) = Finite (max 0 (min 1 (r / 100)))
       \<and> clamp_volume PosInf = Finite 1
       \<and> clamp_volume NegInf = Finite 0
       \<and> clamp_volume NaN = Finite 1
       \<and> map clamp_volume [Finite (- 50), Finite 0, Finite 50, Finite 100, Finite 150]
           = [Finite 0, Finite 0, Finite (1 / 2), Finite 1, Finite 1]"
proof -
  have supported: "source v = Some (PCMVolumeTransformer original old) \<longrightarrow>
            jsk_vc_volume fmt (Some v) p =
              Inr (Some (v\<lparr>source := Some (PCMVolumeTransformer original (clamp_volume p))\<rparr>),
                   [IsConnected, IsPlaying,
                    Send (''Volume set to '' @ fmt (mul_100 (clamp_volume p)) @ ''%'')])"
    using assms by (simp add: jsk_vc_volume_def playing_check_passes Let_def)
  have unsupported: "(\<forall>original old. source v \<noteq> Some (PCMVolumeTransformer original old)) \<longrightarrow>
            jsk_vc_volume fmt (Some v) p =
              Inr (Some v, [IsConnected, IsPlaying, Send volume_unsupported_message])"
    using assms
    by (auto simp add: jsk_vc_volume_def playing_check_passes Let_def
        split: option.splits audio_source.splits)
  have distinct: "volume_unsupported_message \<noteq> ''Volume set to '' @ fmt (mul_100 (clamp_volume p)) @ ''%''"
    by (simp add: volume_unsupported_message_def)
  have five: "map clamp_volume [Finite (- 50), Finite 0, Finite 50, Finite 100, Finite 150]
           = [Finite 0, Finite 0, Finite (1 / 2), Finite 1, Finite 1]"
    by (simp add: clamp_volume_Finite)
  show ?thesis
    using supported unsupported distinct five clamp_volume_Finite clamp_volume_special
    by blast
qed

theorem volume_clamped_witness:
  "is_connected \<lparr>is_connected = True, is_playing = True, is_paused = False,
                  source = Some (PCMVolumeTransformer (FFmpegPCMAudio ''a.mp3'') (Finite 1)),
                  channel_name = ''General''\<rparr>
   \<and> is_playing \<lparr>is_connected = True, is_playing = True, is_paused = False,
                  source = Some (PCMVolumeTransformer (FFmpegPCMAudio ''a.mp3'') (Finite 1)),
                  channel_name = ''General''\<rparr>
   \<and> jsk_vc_volume (\<lambda>x. ''50.00'')
        (Some \<lparr>is_connected = True, is_playing = True, is_paused = False,
                source = Some (PCMVolumeTransformer (FFmpegPCMAudio ''a.mp3'') (Finite 1)),
                channel_name = ''General''\<rparr>) (Finite 50)
      = Inr (Some \<lparr>is_connected = True, is_playing = True, is_paused = False,
                source = Some (PCMVolumeTransformer (FFmpegPCMAudio ''a.mp3'') (Finite (1 / 2))),
                channel_name = ''General''\<rparr>,
             [IsConnected, IsPlaying, Send ''Volume set to 50.00%''])
   \<and> is_connected \<lparr>is_connected = True, is_playing = True, is_paused = False,
                  source = Some (FFmpegPCMAudio ''a.mp3''), channel_name = ''General''\<rparr>
   \<and> is_playing \<lparr>is_connected = True, is_playing = True, is_paused = False,
                  source = Some (FFmpegPCMAudio ''a.mp3''), channel_name = ''General''\<rparr>
   \<and> jsk_vc_volume (\<lambda>x. ''50.00'')
        (Some \<lparr>is_connected = True, is_playing = True, is_paused = False,
                source = Some (FFmpegPCMAudio ''a.mp3''), channel_name = ''General''\<rparr>) (Finite 50)
      = Inr (Some \<lparr>is_connected = True, is_playing = True, is_paused = False,
                source = Some (FFmpegPCMAudio ''a.mp3''), channel_name = ''General''\<rparr>,
             [IsConnected, IsPlaying,
              Send ''This source doesn't support adjusting volume or the interface to do so is not exposed.''])
   \<and> clamp_volume (Finite 250) = Finite 1"
  using volume_clamped
    [of "\<lparr>is_connected = True, is_playing = True, is_paused = False,
                  source = Some (PCMVolumeTransformer (FFmpegPCMAudio ''a.mp3'') (Finite 1)),
                  channel_name = ''General''\<rparr>" "FFmpegPCMAudio ''a.mp3''" "Finite 1"
        "\<lambda>x. ''50.00''" "Finite 50" 250]
    volume_clamped
    [of "\<lparr>is_connected = True, is_playing = True, is_paused = False,
                  source = Some (FFmpegPCMAudio ''a.mp3''), channel_name = ''General''\<rparr>"
        "FFmpegPCMAudio ''a.mp3''" "Finite 1" "\<lambda>x. ''50.00''" "Finite 50" 250]
  by (simp add: volume_unsupported_message_def)

text \<open>
  C6. Each of \<open>stop\<close>, \<open>pause\<close>, \<open>resume\<close> and \<open>volume\<close>: without a voice client, or
  with one that is not connected, the handler sends the not-connected text and its trace
  has no call of \<open>is_playing\<close>; with a connected client that is not playing it sends the
  not-playing text. In all three cases nothing else is done and the client is unchanged.
\<close>

theorem stop_class_guard_order:
  "(\<forall>f \<in> {jsk_vc_stop, jsk_vc_pause, jsk_vc_resume, \<lambda>voice. jsk_vc_volume fmt voice p}.
      f None = Inr (None, [Send not_connected_message])
      \<and> (\<not> is_connected v \<longrightarrow>
           f (Some v) = Inr (Some v, [IsConnected, Send not_connected_message]))
      \<and> (is_connected v \<and> \<not> is_playing v \<longrightarrow>
           f (Some v) = Inr (Some v, [IsConnected, IsPlaying, Send not_playing_message])))
   \<and> IsPlaying \<notin> set [Send not_connected_message]
   \<and> IsPlaying \<notin> set [IsConnected, Send not_connected_message]
   \<and> not_connected_message \<noteq> not_playing_message"
  by (simp add: jsk_vc_stop_def jsk_vc_pause_def jsk_vc_resume_def jsk_vc_volume_def Let_def
      playing_check_None playing_check_disconnected playing_check_idle
      not_connected_message_def not_playing_message_def)

theorem stop_class_guard_order_witness:
  "jsk_vc_stop None = Inr (None, [Send ''Not connected to a voice channel in this guild.''])
   \<and> \<not> is_connected \<lparr>is_connected = False, is_playing = True, is_paused = False,
                       source = None, channel_name = ''General''\<rparr>
   \<and> jsk_vc_pause (Some \<lparr>is_connected = False, is_playing = True, is_paused = False,
                           source = None, channel_name = ''General''\<rparr>)
       = Inr (Some \<lparr>is_connected = False, is_playing = True, is_paused = False,
                     source = None, channel_name = ''General''\<rparr>,
              [IsConnected, Send ''Not connected to a voice channel in this guild.''])
   \<and> is_connected \<lparr>is_connected = True, is_playing = False, is_paused = False,
                     source = None, channel_name = ''General''\<rparr>
   \<and> \<not> is_playing \<lparr>is_connected = True, is_playing = False, is_paused = False,
                     source = None, channel_name = ''General''\<rparr>
   \<and> jsk_vc_resume (Some \<lparr>is_connected = True, is_playing = False, is_paused = False,
                            source = None, channel_name = ''General''\<rparr>)
       = Inr (Some \<lparr>is_connected = True, is_playing = False, is_paused = False,
                     source = None, channel_name = ''General''\<rparr>,
              [IsConnected, IsPlaying,
               Send ''The voice client in this guild is not playing anything.''])
   \<and> jsk_vc_volume (\<lambda>x. ''50.00'')
        (Some \<lparr>is_connected = True, is_playing = False, is_paused = False,
                source = None, channel_name = ''General''\<rparr>) (Finite 50)
       = Inr (Some \<lparr>is_connected = True, is_playing = False, is_paused = False,
                     source = None, channel_name = ''General''\<rparr>,
              [IsConnected, IsPlaying,
               Send ''The voice client in this guild is not playing anything.''])"
  using stop_class_guard_order
    [of "\<lambda>x. ''50.00''" "Finite 50"
        "\<lparr>is_connected = False, is_playing = True, is_paused = False,
          source = None, channel_name = ''General''\<rparr>"]
    stop_class_guard_order
    [of "\<lambda>x. ''50.00''" "Finite 50"
        "\<lparr>is_connected = True, is_playing = False, is_paused = False,
          source = None, channel_name = ''General''\<rparr>"]
  by (simp add: not_connected_message_def not_playing_message_def)

text \<open>
  C9. On a connected client, \<open>jsk voice play\<close> of \<open><http://x/a.mp3>\<close> and of
  \<open>http://x/a.mp3\<close> make the same calls, and the source played is built from the URI
  \<open>http://x/a.mp3\<close>. In general a URI that neither starts with \<open><\<close> nor ends with
  \<open>>\<close> is passed on unchanged, and the same URI enclosed in \<open><\<close> and \<open>>\<close> is played
  as the bare one.
\<close>

theorem play_strips_angle_brackets:
  assumes "is_connected v"
  shows "jsk_vc_play (Some v) ''<http://x/a.mp3>'' =
           Inr (Some v,
                [IsConnected] @ (if is_playing v then [IsPlaying, Stop] else [IsPlaying])
                @ [Play (PCMVolumeTransformer (FFmpegPCMAudio ''http://x/a.mp3'') (Finite 1)),
                   Send (''Playing in '' @ channel_name v @ ''.'')])
       \<and> jsk_vc_play (Some v) ''http://x/a.mp3'' = jsk_vc_play (Some v) ''<http://x/a.mp3>''
       \<and> (u = [] \<or> (hd u \<noteq> CHR ''<'' \<and> last u \<noteq> CHR ''>'') \<longrightarrow>
            jsk_vc_play (Some v) u =
              Inr (Some v,
                   [IsConnected] @ (if is_playing v then [IsPlaying, Stop] else [IsPlaying])
                   @ [Play (PCMVolumeTransformer (FFmpegPCMAudio u) (Finite 1)),
                      Send (''Playing in '' @ channel_name v @ ''.'')])
            \<and> jsk_vc_play (Some v) (CHR ''<'' # u @ ''>'') = jsk_vc_play (Some v) u)"
  using assms
  by (simp add: jsk_vc_play_def connected_check_def strip_bare Let_def)
     (simp add: lstrip_def rstrip_def)

theorem play_strips_angle_brackets_witness:
  "is_connected \<lparr>is_connected = True, is_playing = True, is_paused = False,
                  source = Some (OtherSource 0), channel_name = ''General''\<rparr>
   \<and> jsk_vc_play (Some \<lparr>is_connected = True, is_playing = True, is_paused = False,
                          source = Some (OtherSource 0), channel_name = ''General''\<rparr>)
        ''<http://x/a.mp3>''
      = Inr (Some \<lparr>is_connected = True, is_playing = True, is_paused = False,
                    source = Some (OtherSource 0), channel_name = ''General''\<rparr>,
             [IsConnected, IsPlaying, Stop,
              Play (PCMVolumeTransformer (FFmpegPCMAudio ''http://x/a.mp3'') (Finite 1)),
              Send ''Playing in General.''])
   \<and> jsk_vc_play (Some \<lparr>is_connected = True, is_playing = True, is_paused = False,
                          source = Some (OtherSource 0), channel_name = ''General''\<rparr>)
        ''http://x/a.mp3''
      = Inr (Some \<lparr>is_connected = True, is_playing = True, is_paused = False,
                    source = Some (OtherSource 0), channel_name = ''General''\<rparr>,
             [IsConnected, IsPlaying, Stop,
              Play (PCMVolumeTransformer (FFmpegPCMAudio ''http://x/a.mp3'') (Finite 1)),
              Send ''Playing in General.''])
   \<and> jsk_vc_play (Some \<lparr>is_connected = True, is_playing = True, is_paused = False,
                          source = Some (OtherSource 0), channel_name = ''General''\<rparr>)
        ''<song.ogg>''
      = Inr (Some \<lparr>is_connected = True, is_playing = True, is_paused = False,
                    source = Some (OtherSource 0), channel_name = ''General''\<rparr>,
             [IsConnected, IsPlaying, Stop,
              Play (PCMVolumeTransformer (FFmpegPCMAudio ''song.ogg'') (Finite 1)),
              Send ''Playing in General.''])"
  using play_strips_angle_brackets
    [of "\<lparr>is_connected = True, is_playing = True, is_paused = False,
          source = Some (OtherSource 0), channel_name = ''General''\<rparr>" "''song.ogg''"]
  by simp


section \<open>Properties of the status report\<close>

lemma header_lines_no_denial: "count_list (header_lines e) access_denied_message = 0"
  by (simp add: header_lines_def remove_newlines_def access_denied_message_def)

lemma tail_lines_no_denial:
  "shard_line e \<noteq> access_denied_message"
  "cache_line e \<noteq> access_denied_message"
  "latency_line e \<noteq> access_denied_message"
  by (simp_all add: shard_line_def cache_line_def latency_line_def access_denied_message_def Let_def)

lemma metric_lines_no_denial:
  "memory_line f mem \<noteq> access_denied_message"
  "process_line p n k \<noteq> access_denied_message"
  "[] \<noteq> access_denied_message"
  by (simp_all add: memory_line_def process_line_def access_denied_message_def)

lemma process_lines_denial_count:
  "count_list (process_lines e) access_denied_message =
     (if (case psutil e of None \<Rightarrow> False | Some (Inl _) \<Rightarrow> True
          | Some (Inr proc) \<Rightarrow> isl (oneshot proc))
      then 1 else 0)"
  by (auto simp add: process_lines_def metric_lines_no_denial
      split: option.splits sum.splits psutil_error.splits)

text \<open>
  C5, as stated, when only the memory query is denied. The report leaves the memory line
  out and says nothing about it: the process line, the blank line and the other lines are
  all there, and the text about insufficient access rights is not among them.
\<close>

theorem process_info_partial_denial_counterexample:
  "memory_full_info \<lparr>oneshot = Inr (), memory_full_info = Inl AccessDenied,
                      name = Inr ''python'', pid = 42, num_threads = Inr 3\<rparr> = Inl AccessDenied
   \<and> summary (sample_env [0, 1, 2]
        (Some (Inr \<lparr>oneshot = Inr (), memory_full_info = Inl AccessDenied,
                     name = Inr ''python'', pid = 42, num_threads = Inr 3\<rparr>)))
     = [''Jishaku v1.20.0, discord.py `1.7.3`, `Python 3.9.0` on `linux`'',
        ''Module was loaded 2 hours ago, cog was loaded an hour ago.'',
        [],
        ''Running on PID 42 (`python`) with 3 thread(s).'',
        [],
        ''This bot is automatically sharded (Shards 0, 1, 2 of 24) and can see 2 guild(s) and 3 user(s).'',
        ''Message cache capped at 1000, presence intent is disabled and members intent is enabled.'',
        ''Average websocket latency: 41.5ms'']
   \<and> count_list (summary (sample_env [0, 1, 2]
        (Some (Inr \<lparr>oneshot = Inr (), memory_full_info = Inl AccessDenied,
                     name = Inr ''python'', pid = 42, num_threads = Inr 3\<rparr>))))
        access_denied_message = 0"
  by (simp add: summary_def header_lines_def remove_newlines_def process_lines_def
      process_line_def shard_line_def cache_summary_def cache_line_def latency_line_def
      str_opt_def truthy_def access_denied_message_def str_nat.simps digit_char_def)

text \<open>
  C5, amended. For every combination of answers and denials of psutil the report is the
  header, the process block and the shard, cache and latency lines. A denial of the memory
  query leaves out only the memory line, a denial of the name or thread query only the
  process line, and neither is explained. The text about insufficient access rights is in
  the report exactly once when obtaining the process or entering its one-shot context is
  denied (then it stands for both lines), and not at all otherwise.
\<close>

theorem process_info_degrades:
  "summary e = header_lines e @ process_lines e @ [shard_line e, cache_line e, latency_line e]
   \<and> jsk e = join [CHR 0x0A] (summary e)
   \<and> count_list (summary e) access_denied_message =
       (if (case psutil e of None \<Rightarrow> False | Some (Inl _) \<Rightarrow> True
            | Some (Inr proc) \<Rightarrow> isl (oneshot proc))
        then 1 else 0)
   \<and> (psutil e = Some (Inl AccessDenied) \<longrightarrow> process_lines e = [access_denied_message, []])
   \<and> (psutil e = Some (Inr proc) \<longrightarrow>
        (oneshot proc = Inl AccessDenied \<longrightarrow> process_lines e = [access_denied_message, []])
        \<and> (oneshot proc = Inr () \<longrightarrow>
             (memory_full_info proc = Inl AccessDenied \<and> name proc = Inr n
                \<and> num_threads proc = Inr k \<longrightarrow>
                  process_lines e = [process_line (pid proc) n k, []])
             \<and> (memory_full_info proc = Inr mem
                  \<and> (name proc = Inl AccessDenied \<or> num_threads proc = Inl AccessDenied) \<longrightarrow>
                  process_lines e = [memory_line (naturalsize e) mem, []])
             \<and> (memory_full_info proc = Inl AccessDenied
                  \<and> (name proc = Inl AccessDenied \<or> num_threads proc = Inl AccessDenied) \<longrightarrow>
                  process_lines e = [[]])
             \<and> (memory_full_info proc = Inr mem \<and> name proc = Inr n
                  \<and> num_threads proc = Inr k \<longrightarrow>
                  process_lines e =
                    [memory_line (naturalsize e) mem, process_line (pid proc) n k, []])))"
proof -
  have count: "count_list (summary e) access_denied_message =
       (if (case psutil e of None \<Rightarrow> False | Some (Inl _) \<Rightarrow> True
            | Some (Inr proc) \<Rightarrow> isl (oneshot proc))
        then 1 else 0)"
    by (simp add: summary_def header_lines_no_denial process_lines_denial_count
        tail_lines_no_denial)
  have table: "(psutil e = Some (Inl AccessDenied) \<longrightarrow> process_lines e = [access_denied_message, []])
   \<and> (psutil e = Some (Inr proc) \<longrightarrow>
        (oneshot proc = Inl AccessDenied \<longrightarrow> process_lines e = [access_denied_message, []])
        \<and> (oneshot proc = Inr () \<longrightarrow>
             (memory_full_info proc = Inl AccessDenied \<and> name proc = Inr n
                \<and> num_threads proc = Inr k \<longrightarrow>
                  process_lines e = [process_line (pid proc) n k, []])
             \<and> (memory_full_info proc = Inr mem
                  \<and> (name proc = Inl AccessDenied \<or> num_threads proc = Inl AccessDenied) \<longrightarrow>
                  process_lines e = [memory_line (naturalsize e) mem, []])
             \<and> (memory_full_info proc = Inl AccessDenied
                  \<and> (name proc = Inl AccessDenied \<or> num_threads proc = Inl AccessDenied) \<longrightarrow>
                  process_lines e = [[]])
             \<and> (memory_full_info proc = Inr mem \<and> name proc = Inr n
                  \<and> num_threads proc = Inr k \<longrightarrow>
                  process_lines e =
                    [memory_line (naturalsize e) mem, process_line (pid proc) n k, []])))"
    by (auto simp add: process_lines_def split: sum.splits psutil_error.splits)
  show ?thesis
    using count table by (simp add: summary_def jsk_def)
qed


theorem process_info_degrades_witness:
  "process_lines (sample_env [0, 1, 2]
        (Some (Inr \<lparr>oneshot = Inr (), memory_full_info = Inl AccessDenied,
                     name = Inr ''python'', pid = 42, num_threads = Inr 3\<rparr>)))
     = [''Running on PID 42 (`python`) with 3 thread(s).'', []]
   \<and> count_list (summary (sample_env [0, 1, 2]
        (Some (Inr \<lparr>oneshot = Inr (), memory_full_info = Inl AccessDenied,
                     name = Inr ''python'', pid = 42, num_threads = Inr 3\<rparr>))))
        access_denied_message = 0
   \<and> process_lines (sample_env [0, 1, 2]
        (Some (Inr \<lparr>oneshot = Inr (),
                     memory_full_info = Inr \<lparr>rss = 300, vms = 500, uss = 200\<rparr>,
                     name = Inr ''python'', pid = 42, num_threads = Inl AccessDenied\<rparr>)))
     = [''Using 300 Bytes physical memory and 500 Bytes virtual memory, 200 Bytes of which unique to this process.'', []]
   \<and> process_lines (sample_env [0, 1, 2] (Some (Inl AccessDenied)))
     = [''psutil is installed, but this process does not have high enough access rights to query process information.'', []]
   \<and> count_list (summary (sample_env [0, 1, 2] (Some (Inl AccessDenied))))
        access_denied_message = 1"
proof -
  note partial_memory = process_info_degrades
    [of "sample_env [0, 1, 2]
        (Some (Inr \<lparr>oneshot = Inr (), memory_full_info = Inl AccessDenied,
                     name = Inr ''python'', pid = 42, num_threads = Inr 3\<rparr>))"
        "\<lparr>oneshot = Inr (), memory_full_info = Inl AccessDenied,
                     name = Inr ''python'', pid = 42, num_threads = Inr 3\<rparr>"
        "''python''" 3 "\<lparr>rss = 300, vms = 500, uss = 200\<rparr>",
        THEN conjunct2, THEN conjunct2]
  note partial_threads = process_info_degrades
    [of "sample_env [0, 1, 2]
        (Some (Inr \<lparr>oneshot = Inr (),
                     memory_full_info = Inr \<lparr>rss = 300, vms = 500, uss = 200\<rparr>,
                     name = Inr ''python'', pid = 42, num_threads = Inl AccessDenied\<rparr>))"
        "\<lparr>oneshot = Inr (),
                     memory_full_info = Inr \<lparr>rss = 300, vms = 500, uss = 200\<rparr>,
                     name = Inr ''python'', pid = 42, num_threads = Inl AccessDenied\<rparr>"
        "''python''" 3 "\<lparr>rss = 300, vms = 500, uss = 200\<rparr>",
        THEN conjunct2, THEN conjunct2]
  note total = process_info_degrades
    [of "sample_env [0, 1, 2] (Some (Inl AccessDenied))"
        "\<lparr>oneshot = Inr (), memory_full_info = Inl AccessDenied,
                     name = Inr ''python'', pid = 42, num_threads = Inr 3\<rparr>"
        "''python''" 3 "\<lparr>rss = 300, vms = 500, uss = 200\<rparr>",
        THEN conjunct2, THEN conjunct2]
  have process_text:
    "process_line 42 ''python'' 3 = ''Running on PID 42 (`python`) with 3 thread(s).''"
    by (simp add: process_line_def str_nat.simps digit_char_def)
  have memory_text:
    "memory_line (\<lambda>n. str_nat n @ '' Bytes'') \<lparr>rss = 300, vms = 500, uss = 200\<rparr>
       = ''Using 300 Bytes physical memory and 500 Bytes virtual memory, 200 Bytes of which unique to this process.''"
    by (simp add: memory_line_def str_nat.simps digit_char_def)
  have a: "process_lines (sample_env [0, 1, 2]
        (Some (Inr \<lparr>oneshot = Inr (), memory_full_info = Inl AccessDenied,
                     name = Inr ''python'', pid = 42, num_threads = Inr 3\<rparr>)))
     = [process_line 42 ''python'' 3, []]"
    using partial_memory by simp
  have b: "count_list (summary (sample_env [0, 1, 2]
        (Some (Inr \<lparr>oneshot = Inr (), memory_full_info = Inl AccessDenied,
                     name = Inr ''python'', pid = 42, num_threads = Inr 3\<rparr>))))
        access_denied_message = 0"
    using partial_memory by simp
  have c: "process_lines (sample_env [0, 1, 2]
        (Some (Inr \<lparr>oneshot = Inr (),
                     memory_full_info = Inr \<lparr>rss = 300, vms = 500, uss = 200\<rparr>,
                     name = Inr ''python'', pid = 42, num_threads = Inl AccessDenied\<rparr>)))
     = [memory_line (\<lambda>n. str_nat n @ '' Bytes'') \<lparr>rss = 300, vms = 500, uss = 200\<rparr>, []]"
    using partial_threads by simp
  have d: "process_lines (sample_env [0, 1, 2] (Some (Inl AccessDenied)))
     = [access_denied_message, []]"
    using total by simp
  have e: "count_list (summary (sample_env [0, 1, 2] (Some (Inl AccessDenied))))
        access_denied_message = 1"
    using total by simp
  show ?thesis
    unfolding a b c d e process_text memory_text
    by (simp add: access_denied_message_def)
qed

text \<open>
  C7. For an automatically sharded bot the line after the process block is the shard line.
  With more than 20 shards it holds the number of shards and the shard count and is the
  same for any other shard ids of the same number: no id is listed. With at most 20
  shards it lists the shard ids, separated by commas.
\<close>

theorem shard_line_over_twenty:
  assumes "auto_sharded e"
  shows "summary e ! (length (header_lines e) + length (process_lines e)) = shard_line e
   \<and> (length (shards e) > 20 \<longrightarrow>
        shard_line e =
          ''This bot is automatically sharded ('' @ str_nat (length (shards e))
          @ '' shards of '' @ str_opt (shard_count e) @ '') and can see ''
          @ cache_summary e @ ''.''
        \<and> (\<forall>ids. length ids = length (shards e) \<longrightarrow>
              shard_line (e\<lparr>shards := ids\<rparr>) = shard_line e))
   \<and> (length (shards e) \<le> 20 \<longrightarrow>
        shard_line e =
          ''This bot is automatically sharded (Shards '' @ join '', '' (map str_nat (shards e))
          @ '' of '' @ str_opt (shard_count e) @ '') and can see ''
          @ cache_summary e @ ''.'')"
proof -
  have pos: "summary e ! (length (header_lines e) + length (process_lines e)) = shard_line e"
    by (simp add: summary_def nth_append)
  have many: "length (shards e) > 20 \<longrightarrow>
        shard_line e =
          ''This bot is automatically sharded ('' @ str_nat (length (shards e))
          @ '' shards of '' @ str_opt (shard_count e) @ '') and can see ''
          @ cache_summary e @ ''.''
        \<and> (\<forall>ids. length ids = length (shards e) \<longrightarrow>
              shard_line (e\<lparr>shards := ids\<rparr>) = shard_line e)"
    using assms by (simp add: shard_line_def cache_summary_def)
  have few: "length (shards e) \<le> 20 \<longrightarrow>
        shard_line e =
          ''This bot is automatically sharded (Shards '' @ join '', '' (map str_nat (shards e))
          @ '' of '' @ str_opt (shard_count e) @ '') and can see ''
          @ cache_summary e @ ''.''"
    using assms by (simp add: shard_line_def Let_def)
  show ?thesis using pos many few by blast
qed

theorem shard_line_over_twenty_witness:
  "auto_sharded (sample_env [0, 1, 2, 3, 4, 5, 6, 7, 8, 9, 10, 11, 12, 13, 14, 15, 16, 17, 18, 19, 20] None)
   \<and> length (shards (sample_env [0, 1, 2, 3, 4, 5, 6, 7, 8, 9, 10, 11, 12, 13, 14, 15, 16, 17, 18, 19, 20] None)) > 20
   \<and> summary (sample_env [0, 1, 2, 3, 4, 5, 6, 7, 8, 9, 10, 11, 12, 13, 14, 15, 16, 17, 18, 19, 20] None) ! 3
       = ''This bot is automatically sharded (21 shards of 24) and can see 2 guild(s) and 3 user(s).''
   \<and> auto_sharded (sample_env [0, 1, 2] None)
   \<and> length (shards (sample_env [0, 1, 2] None)) \<le> 20
   \<and> summary (sample_env [0, 1, 2] None) ! 3
       = ''This bot is automatically sharded (Shards 0, 1, 2 of 24) and can see 2 guild(s) and 3 user(s).''"
proof -
  let ?many = "sample_env [0, 1, 2, 3, 4, 5, 6, 7, 8, 9, 10, 11, 12, 13, 14, 15, 16, 17, 18, 19, 20] None"
  let ?few = "sample_env [0, 1, 2] None"
  have sharded: "auto_sharded ?many" "auto_sharded ?few"
    by simp_all
  have sizes: "length (shards ?many) = 21" "length (shards ?few) = 3"
    by simp_all
  have over: "20 < length (shards ?many)" and under: "length (shards ?few) \<le> 20"
    unfolding sizes by simp_all
  have texts: "str_nat 21 = ''21''" "map str_nat (shards ?few) = [''0'', ''1'', ''2'']"
    "str_opt (shard_count ?many) = ''24''" "str_opt (shard_count ?few) = ''24''"
    "cache_summary ?many = ''2 guild(s) and 3 user(s)''"
    "cache_summary ?few = ''2 guild(s) and 3 user(s)''"
    by (simp_all add: str_opt_def cache_summary_def str_nat.simps digit_char_def)
  have a: "shard_line ?many =
       ''This bot is automatically sharded (21 shards of 24) and can see 2 guild(s) and 3 user(s).''"
    using shard_line_over_twenty
      [OF sharded(1), THEN conjunct2, THEN conjunct1, THEN mp, OF over, THEN conjunct1]
    unfolding sizes texts by simp
  have b: "shard_line ?few =
       ''This bot is automatically sharded (Shards 0, 1, 2 of 24) and can see 2 guild(s) and 3 user(s).''"
    using shard_line_over_twenty
      [OF sharded(2), THEN conjunct2, THEN conjunct2, THEN mp, OF under]
    unfolding sizes texts by simp
  have pos: "summary (sample_env ids None) ! 3 = shard_line (sample_env ids None)" for ids
    by (simp add: summary_def header_lines_def process_lines_def)
  show ?thesis
    unfolding pos a b sizes using sharded by simp
qed


end
